theory Spec2Isabelle
  imports Complex_Main "HOL-Library.Sublist" "HOL-Library.Multiset" "HOL-Library.Char_ord"
    "HOL-Library.List_Lexorder"
begin

section \<open>The cached demo dataset of streamlit_app.py\<close>

text \<open>
  Calendar days are day numbers (\<open>int\<close>); subtracting a \<open>timedelta\<close> of whole days is
  integer subtraction. The float columns are idealised as exact reals. A DataFrame is
  the list of its rows, in index order.
\<close>

datatype error = ValueError | IndexError

record row =
  day :: int
  project :: string
  tx_count :: int
  amount_usd :: real

type_synonym frame = "row list"

text \<open>
  numpy's \<open>Generator\<close> is a library object: it is a parameter of the model.
  \<open>default_rng\<close> builds the state from a seed; \<open>integers\<close> and \<open>uniform\<close> take the
  state, \<open>low\<close>, \<open>high\<close> and \<open>size\<close>, and return the array drawn and the next state.
\<close>

record 's generator =
  default_rng :: "nat \<Rightarrow> 's"
  integers :: "'s \<Rightarrow> int \<Rightarrow> int \<Rightarrow> nat \<Rightarrow> int list \<times> 's"
  uniform :: "'s \<Rightarrow> real \<Rightarrow> real \<Rightarrow> nat \<Rightarrow> real list \<times> 's"

text \<open>
  The documented contract of the two draws: an array of \<open>size\<close> values, each in the
  half-open interval from \<open>low\<close> to \<open>high\<close>.
\<close>

definition numpy_ok :: "'s generator \<Rightarrow> bool" where
  "numpy_ok G \<longleftrightarrow>
     (\<forall>s lo hi n. lo < hi \<longrightarrow>
        length (fst (integers G s lo hi n)) = n \<and>
        (\<forall>x \<in> set (fst (integers G s lo hi n)). lo \<le> x \<and> x < hi)) \<and>
     (\<forall>s lo hi n. lo < hi \<longrightarrow>
        length (fst (uniform G s lo hi n)) = n \<and>
        (\<forall>x \<in> set (fst (uniform G s lo hi n)). lo \<le> x \<and> x < hi))"

text \<open>
  \<open>pd.date_range(end=e, periods=n, freq="D")\<close>: the \<open>n\<close> days ending at \<open>e\<close>, none
  for \<open>n = 0\<close>. The day count is a natural number (the slider offers 7 to 180).
\<close>

definition date_range :: "int \<Rightarrow> nat \<Rightarrow> int list" where
  "date_range end_day periods = map (\<lambda>i. end_day - int periods + 1 + int i) [0..<periods]"

text \<open>\<open>np.repeat(xs, k)\<close> repeats each element \<open>k\<close> times in place.\<close>

definition np_repeat :: "'a list \<Rightarrow> nat \<Rightarrow> 'a list" where
  "np_repeat xs k = concat (map (replicate k) xs)"

text \<open>\<open>xs * n\<close> on a tuple: \<open>n\<close> copies of the whole tuple, one after the other.\<close>

definition tuple_mul :: "'a list \<Rightarrow> nat \<Rightarrow> 'a list" where
  "tuple_mul xs n = concat (replicate n xs)"

text \<open>The DataFrame constructor refuses columns of different lengths.\<close>

definition DataFrame :: "int list \<Rightarrow> string list \<Rightarrow> error + (int \<times> string) list" where
  "DataFrame day_col project_col =
     (if length day_col \<noteq> length project_col then Inl ValueError
      else Inr (zip day_col project_col))"

text \<open>\<open>np.rint\<close>: to the nearest integer, ties to the even one.\<close>

definition rint :: "real \<Rightarrow> int" where
  "rint x =
     (let f = \<lfloor>x\<rfloor>; d = x - of_int f
      in if d < 1 / 2 then f
         else if 1 / 2 < d then f + 1
         else if even f then f else f + 1)"

text \<open>\<open>.round(2)\<close>: scale by 100, round, scale back.\<close>

definition round2 :: "real \<Rightarrow> real" where
  "round2 x = of_int (rint (x * 100)) / 100"

text \<open>
  \<open>load_mock\<close>, lines 23 to 34. Assigning a column whose length is not the frame's,
  or multiplying a Series by an array of another length, raises \<open>ValueError\<close>.
\<close>

definition load_mock :: "'s generator \<Rightarrow> int \<Rightarrow> nat \<Rightarrow> string list \<Rightarrow> error + frame" where
  "load_mock G utc_today days projects =
     (let rng = date_range utc_today days in
      case DataFrame (np_repeat rng (length projects)) (tuple_mul projects (length rng)) of
        Inl e \<Rightarrow> Inl e
      | Inr df \<Rightarrow>
          (let rs = default_rng G 42;
               (tx, rs1) = integers G rs 800 3000 (length df)
           in if length tx \<noteq> length df then Inl ValueError
              else
                (let (us, rs2) = uniform G rs1 (1 / 2) 2 (length df)
                 in if length us \<noteq> length tx then Inl ValueError
                    else Inr (map (\<lambda>((d, p), (t, u)).
                                \<lparr>day = d, project = p, tx_count = t,
                                 amount_usd = round2 (of_int t * u)\<rparr>)
                              (zip df (zip tx us))))))"

text \<open>The two columns drawn inside \<open>load_mock\<close>, as functions of the row count.\<close>

definition tx_draw :: "'s generator \<Rightarrow> nat \<Rightarrow> int list" where
  "tx_draw G k = fst (integers G (default_rng G 42) 800 3000 k)"

definition us_draw :: "'s generator \<Rightarrow> nat \<Rightarrow> real list" where
  "us_draw G k =
     fst (uniform G (snd (integers G (default_rng G 42) 800 3000 k)) (1 / 2) 2 k)"

definition mk_row :: "(int \<times> string) \<times> (int \<times> real) \<Rightarrow> row" where
  "mk_row = (\<lambda>((d, p), (t, u)).
      \<lparr>day = d, project = p, tx_count = t, amount_usd = round2 (of_int t * u)\<rparr>)"

section \<open>The cache in front of the generator\<close>

text \<open>
  Modelled from the spec: the decorator \<open>st.cache_data(ttl=600)\<close> of line 22 is
  Streamlit's and its code is not in the repository. Section 4.1 of the spec: results
  are cached keyed by the exact (day count, project tuple) pair for 600 seconds; a hit
  returns the previously computed sequence without re-invoking the draws; an entry
  expires after the time-to-live and is recomputed on the next access. A cache is a
  map from the key to the stored frame and its insertion time, in seconds; a call that
  raises stores nothing.
\<close>

type_synonym cache = "nat \<times> string list \<rightharpoonup> frame \<times> nat"

definition ttl :: nat where
  "ttl = 600"

definition cache_miss ::
  "cache \<Rightarrow> nat \<Rightarrow> nat \<times> string list \<Rightarrow> error + frame \<Rightarrow> (error + frame) \<times> cache" where
  "cache_miss c now key computed =
     (case computed of
        Inl e \<Rightarrow> (Inl e, c(key := None))
      | Inr v \<Rightarrow> (Inr v, c(key \<mapsto> (v, now))))"

definition cache_data ::
  "cache \<Rightarrow> nat \<Rightarrow> nat \<times> string list \<Rightarrow> error + frame \<Rightarrow> (error + frame) \<times> cache" where
  "cache_data c now key computed =
     (case c key of
        None \<Rightarrow> cache_miss c now key computed
      | Some (v, t0) \<Rightarrow>
          if now < t0 + ttl then (Inr v, c) else cache_miss c now key computed)"

text \<open>An entry is alive at \<open>now\<close> while its time-to-live has not run out.\<close>

definition alive :: "cache \<Rightarrow> nat \<Rightarrow> nat \<times> string list \<Rightarrow> bool" where
  "alive c now key = (case c key of None \<Rightarrow> False | Some (v, t0) \<Rightarrow> now < t0 + ttl)"

definition cached_load_mock ::
  "'s generator \<Rightarrow> cache \<Rightarrow> nat \<Rightarrow> int \<Rightarrow> nat \<Rightarrow> string list \<Rightarrow> (error + frame) \<times> cache" where
  "cached_load_mock G c now utc_today days projects =
     cache_data c now (days, projects) (load_mock G utc_today days projects)"

section \<open>The script body: filters, guards, breakdown\<close>

definition all_projects :: "string list" where
  "all_projects = [''uniswap'', ''aave'', ''curve'', ''balancer'', ''sushiswap'']"

text \<open>Line 60: the tuple handed to \<open>load_mock\<close>.\<close>

definition projects_arg :: "string list \<Rightarrow> string list" where
  "projects_arg selected = (if selected \<noteq> [] then selected else all_projects)"

text \<open>
  Line 63. \<open>d1\<close> is the tuple the date widget returns, one date while a range is being
  picked and two once it is; \<open>d1[0]\<close> and \<open>d1[-1]\<close> raise \<open>IndexError\<close> on the empty
  tuple. The rows carry UTC days, the widget local ones; both are day numbers here.
\<close>

definition date_filter :: "frame \<Rightarrow> int list \<Rightarrow> error + frame" where
  "date_filter df d1 =
     (case d1 of
        [] \<Rightarrow> Inl IndexError
      | d # ds \<Rightarrow> Inr (filter (\<lambda>r. d \<le> day r \<and> day r \<le> last (d # ds)) df))"

datatype metric = Amount_usd | Tx_count

fun metric_of :: "metric \<Rightarrow> row \<Rightarrow> real" where
  "metric_of Amount_usd r = amount_usd r"
| "metric_of Tx_count r = of_int (tx_count r)"

text \<open>The sum of a measure over the rows of one project.\<close>

definition total :: "frame \<Rightarrow> metric \<Rightarrow> string \<Rightarrow> real" where
  "total df m p = sum_list (map (metric_of m) (filter (\<lambda>r. project r = p) df))"

text \<open>
  \<open>df.groupby("project", as_index=False)[metric].sum()\<close>: one row per project present,
  the groups in sorted key order.
\<close>

definition groupby_sum :: "frame \<Rightarrow> metric \<Rightarrow> (string \<times> real) list" where
  "groupby_sum df m = map (\<lambda>p. (p, total df m p)) (sort (remdups (map project df)))"

text \<open>
  \<open>.sort_values(metric, ascending=False)\<close>. pandas leaves the order of equal sums to
  the sorting algorithm; here they keep their group order.
\<close>

definition sort_values_desc :: "(string \<times> real) list \<Rightarrow> (string \<times> real) list" where
  "sort_values_desc g = sort_key (\<lambda>x. - snd x) g"

text \<open>Line 111, with \<open>.head(topn)\<close>.\<close>

definition breakdown :: "frame \<Rightarrow> metric \<Rightarrow> nat \<Rightarrow> (string \<times> real) list" where
  "breakdown df m topn = take topn (sort_values_desc (groupby_sum df m))"

text \<open>
  What one rerun shows. The KPI row and the breakdown are kept as data; the chart, the
  table and the download render the same filtered frame and add nothing to it.
\<close>

record view =
  kpi_rows :: nat
  kpi_projects :: nat
  kpi_first_day :: int
  kpi_last_day :: int
  kpi_volume :: real
  breakdown_rows :: "(string \<times> real) list"

datatype outcome = Crash error | Info string | Warning string | Rendered view

definition render :: "frame \<Rightarrow> metric \<Rightarrow> nat \<Rightarrow> view" where
  "render df m topn =
     \<lparr>kpi_rows = length df,
      kpi_projects = length (remdups (map project df)),
      kpi_first_day = Min (set (map day df)),
      kpi_last_day = Max (set (map day df)),
      kpi_volume = sum_list (map amount_usd df),
      breakdown_rows = breakdown df m topn\<rparr>"

text \<open>Lines 60 to 63: load through the cache, then filter by date.\<close>

definition filtered ::
  "'s generator \<Rightarrow> cache \<Rightarrow> nat \<Rightarrow> int \<Rightarrow> nat \<Rightarrow> string list \<Rightarrow> int list \<Rightarrow> (error + frame) \<times> cache" where
  "filtered G c now utc_today days selected d1 =
     (case cached_load_mock G c now utc_today days (projects_arg selected) of
        (Inl e, c') \<Rightarrow> (Inl e, c')
      | (Inr df, c') \<Rightarrow> (date_filter df d1, c'))"

text \<open>
  Lines 60 to 113: one rerun of the script, from the widget values and the cache to
  what is shown and the cache left behind. \<open>st.stop()\<close> ends the rerun.
\<close>

definition rerun ::
  "'s generator \<Rightarrow> cache \<Rightarrow> nat \<Rightarrow> int \<Rightarrow> nat \<Rightarrow> string list \<Rightarrow> int list \<Rightarrow> metric \<Rightarrow> nat
     \<Rightarrow> outcome \<times> cache" where
  "rerun G c now utc_today days selected d1 m topn =
     (case filtered G c now utc_today days selected d1 of
        (Inl e, c') \<Rightarrow> (Crash e, c')
      | (Inr df, c') \<Rightarrow>
          if selected = [] then (Info ''Select at least one project in the sidebar.'', c')
          else if df = [] then (Warning ''No rows for this date range.'', c')
          else (Rendered (render df m topn), c'))"

section \<open>A concrete generator\<close>

text \<open>
  A small deterministic generator that meets the contract; it instantiates the
  theorems below at concrete inputs.
\<close>

definition counter_rng :: "nat generator" where
  "counter_rng =
     \<lparr>default_rng = (\<lambda>seed. seed),
      integers = (\<lambda>s lo hi n.
         (map (\<lambda>i. lo + int ((s * 37 + i * 911) mod nat (hi - lo))) [0..<n], s + n)),
      uniform = (\<lambda>s lo hi n.
         (map (\<lambda>i. lo + (hi - lo) * (real ((s + i * 3) mod 8) / 8)) [0..<n], s + n))\<rparr>"

section \<open>Shape of the generated frame\<close>

lemma length_np_repeat: "length (np_repeat xs k) = length xs * k"
  by (induction xs) (simp_all add: np_repeat_def)

lemma length_tuple_mul: "length (tuple_mul xs n) = n * length xs"
  by (induction n) (simp_all add: tuple_mul_def)

lemma length_date_range: "length (date_range e n) = n"
  by (simp add: date_range_def)

lemma zip_repeat_mul:
  "zip (np_repeat xs (length ps)) (tuple_mul ps (length xs)) = List.product xs ps"
proof (induction xs)
  case Nil
  show ?case by (simp add: np_repeat_def tuple_mul_def)
next
  case (Cons x xs)
  have "zip (replicate (length ps) x) ps = map (Pair x) ps"
    by (simp add: zip_replicate1)
  with Cons show ?case
    by (simp add: np_repeat_def tuple_mul_def)
qed

lemma length_tx_draw: "numpy_ok G \<Longrightarrow> length (tx_draw G k) = k"
  by (simp add: numpy_ok_def tx_draw_def)

lemma length_us_draw: "numpy_ok G \<Longrightarrow> length (us_draw G k) = k"
  by (simp add: numpy_ok_def us_draw_def)

lemma load_mock_eq:
  assumes "numpy_ok G"
  shows "load_mock G t n ps =
    Inr (map mk_row (zip (List.product (date_range t n) ps)
                         (zip (tx_draw G (n * length ps)) (us_draw G (n * length ps)))))"
proof -
  have len: "length (List.product (date_range t n) ps) = n * length ps"
    by (simp add: length_date_range)
  show ?thesis
    using assms len length_tx_draw[OF assms, of "n * length ps"]
      length_us_draw[OF assms, of "n * length ps"]
    by (simp add: load_mock_def DataFrame_def length_np_repeat length_tuple_mul
        length_date_range zip_repeat_mul[of "date_range t n" ps, unfolded length_date_range]
        tx_draw_def us_draw_def mk_row_def split_beta Let_def)
qed

lemma tx_draw_range:
  assumes "numpy_ok G" and "x \<in> set (tx_draw G k)"
  shows "800 \<le> x \<and> x < 3000"
proof -
  have "(800::int) < 3000" by simp
  with assms(1) have "\<forall>x \<in> set (fst (integers G (default_rng G 42) 800 3000 k)). 800 \<le> x \<and> x < 3000"
    unfolding numpy_ok_def by blast
  with assms(2) show ?thesis by (simp add: tx_draw_def)
qed

lemma us_draw_range:
  assumes "numpy_ok G" and "u \<in> set (us_draw G k)"
  shows "1 / 2 \<le> u \<and> u < 2"
proof -
  have "(1 / 2 :: real) < 2" by simp
  with assms(1) have "\<forall>x \<in> set (fst (uniform G (snd (integers G (default_rng G 42) 800 3000 k)) (1 / 2) 2 k)).
      1 / 2 \<le> x \<and> x < 2"
    unfolding numpy_ok_def by blast
  with assms(2) show ?thesis unfolding us_draw_def by blast
qed

lemma in_rows:
  assumes "r \<in> set (map mk_row (zip L (zip tx us)))"
  obtains d p t u where "r = mk_row ((d, p), (t, u))" and "(d, p) \<in> set L"
    and "t \<in> set tx" and "u \<in> set us"
  using assms by (auto elim!: in_set_zipE)

lemma floor_le_rint: "\<lfloor>x\<rfloor> \<le> rint x"
  by (simp add: rint_def Let_def)

lemma round2_nonneg: "0 \<le> x \<Longrightarrow> 0 \<le> round2 x"
proof -
  assume "0 \<le> x"
  then have "0 \<le> \<lfloor>x * 100\<rfloor>" by simp
  also have "\<dots> \<le> rint (x * 100)" by (rule floor_le_rint)
  finally show ?thesis by (simp add: round2_def)
qed

lemma key_mk_row: "(\<lambda>r. (day r, project r)) \<circ> mk_row = fst"
  by (auto simp: mk_row_def fun_eq_iff)

lemma keys_of_rows:
  "length L = length R \<Longrightarrow> map (\<lambda>r. (day r, project r)) (map mk_row (zip L R)) = L"
  by (simp add: key_mk_row)

lemma date_range_upto: "date_range e n = [e - int n + 1 .. e]"
proof -
  have "map (\<lambda>i. a + int i) [0..<n] = [a .. a + int n - 1]" for a
  proof (induction n)
    case 0
    show ?case by simp
  next
    case (Suc n)
    have "[a .. a + int (Suc n) - 1] = [a .. a + int n - 1] @ [a + int n]"
      using upto_rec2[of a "a + int n"] by simp
    with Suc show ?case by simp
  qed
  from this[of "e - int n + 1"] show ?thesis by (simp add: date_range_def)
qed

lemma date_range_nth: "i < n \<Longrightarrow> date_range e n ! i = e - int n + 1 + int i"
  by (simp add: date_range_def)

lemma date_range_increasing: "sorted_wrt (<) (date_range e n)"
  by (simp add: date_range_upto)

lemma date_range_last: "1 \<le> n \<Longrightarrow> last (date_range e n) = e"
  by (simp add: date_range_def last_map)

section \<open>The concrete generator meets the contract\<close>

lemma counter_rng_ok: "numpy_ok counter_rng"
proof -
  have int_rng: "lo \<le> lo + int (k mod nat (hi - lo)) \<and> lo + int (k mod nat (hi - lo)) < hi"
    if "lo < hi" for lo hi :: int and k :: nat
  proof -
    have "0 < nat (hi - lo)" using that by simp
    then have "k mod nat (hi - lo) < nat (hi - lo)" by (rule mod_less_divisor)
    then show ?thesis using that by linarith
  qed
  have real_rng: "lo \<le> lo + (hi - lo) * (real (k mod 8) / 8) \<and>
      lo + (hi - lo) * (real (k mod 8) / 8) < hi"
    if "lo < hi" for lo hi :: real and k :: nat
  proof -
    have "k mod 8 < 8" by simp
    then have q: "0 \<le> real (k mod 8) / 8" "real (k mod 8) / 8 < 1" by simp_all
    have "(hi - lo) * (real (k mod 8) / 8) < (hi - lo) * 1"
      using that q(2) by (intro mult_strict_left_mono) simp_all
    moreover have "0 \<le> (hi - lo) * (real (k mod 8) / 8)"
      using that q(1) by (intro mult_nonneg_nonneg) simp_all
    ultimately show ?thesis by simp
  qed
  show ?thesis
    unfolding numpy_ok_def counter_rng_def
    using int_rng real_rng by auto
qed

lemma counter_rng_two_days:
  "load_mock counter_rng 100 2 [''uniswap'', ''aave''] =
   Inr [\<lparr>day = 99, project = ''uniswap'', tx_count = 2354, amount_usd = 15301 / 4\<rparr>,
        \<lparr>day = 99, project = ''aave'', tx_count = 1065, amount_usd = 73219 / 100\<rparr>,
        \<lparr>day = 100, project = ''uniswap'', tx_count = 1976, amount_usd = 2470\<rparr>,
        \<lparr>day = 100, project = ''aave'', tx_count = 2887, amount_usd = 523269 / 100\<rparr>]"
  by code_simp

section \<open>Claims about the generator\<close>

text \<open>
  C1. \<open>load_mock\<close> returns a frame of exactly \<open>days * len(projects)\<close> rows. This holds
  for every day count and every project tuple, so in particular for a day count of at
  least 1 and a non-empty tuple; the only assumption is numpy's contract.
\<close>

theorem load_mock_row_count:
  assumes "numpy_ok G"
  shows "\<exists>df. load_mock G utc_today days projects = Inr df \<and>
           length df = days * length projects"
  using assms
  by (simp add: load_mock_eq length_date_range length_tx_draw length_us_draw)

theorem load_mock_row_count_witness:
  "numpy_ok counter_rng \<and>
   (\<exists>df. load_mock counter_rng 20000 7 [''uniswap'', ''aave''] = Inr df \<and> length df = 14)"
  using load_mock_row_count [OF counter_rng_ok, of 20000 7 "[''uniswap'', ''aave'']"]
    counter_rng_ok
  by simp

text \<open>
  C2. For distinct projects, the (day, project) pairs of the frame are, in row order,
  the days of the range as the outer grouping and the projects as the inner one; each
  pair of a day of the range and a project occurs exactly once; the range is the
  \<open>days\<close> consecutive days ending at the reference day, strictly increasing, each day
  one more than the one before.
\<close>

theorem load_mock_pairs:
  assumes "numpy_ok G" and "distinct projects"
  shows "\<exists>df. load_mock G utc_today days projects = Inr df \<and>
           map (\<lambda>r. (day r, project r)) df =
             concat (map (\<lambda>d. map (\<lambda>p. (d, p)) projects) (date_range utc_today days)) \<and>
           distinct (map (\<lambda>r. (day r, project r)) df) \<and>
           set (map (\<lambda>r. (day r, project r)) df) =
             {utc_today - int days + 1 .. utc_today} \<times> set projects \<and>
           date_range utc_today days = [utc_today - int days + 1 .. utc_today] \<and>
           sorted_wrt (<) (date_range utc_today days) \<and>
           (\<forall>i. Suc i < days \<longrightarrow>
              date_range utc_today days ! Suc i = date_range utc_today days ! i + 1) \<and>
           (1 \<le> days \<longrightarrow> last (date_range utc_today days) = utc_today)"
proof -
  let ?rng = "date_range utc_today days"
  let ?L = "List.product ?rng projects"
  let ?R = "zip (tx_draw G (days * length projects)) (us_draw G (days * length projects))"
  let ?df = "map mk_row (zip ?L ?R)"
  have eq: "load_mock G utc_today days projects = Inr ?df"
    by (rule load_mock_eq[OF assms(1)])
  have "length ?L = length ?R"
    using assms(1) by (simp add: length_date_range length_tx_draw length_us_draw)
  then have keys: "map (\<lambda>r. (day r, project r)) ?df = ?L"
    by (rule keys_of_rows)
  have prod: "?L = concat (map (\<lambda>d. map (\<lambda>p. (d, p)) projects) ?rng)"
    by (simp add: product_concat_map)
  have dist: "distinct ?L"
    using assms(2) by (intro distinct_product) (simp_all add: date_range_upto)
  have st: "set ?L = {utc_today - int days + 1 .. utc_today} \<times> set projects"
    by (simp add: date_range_upto)
  have gap: "\<forall>i. Suc i < days \<longrightarrow> ?rng ! Suc i = ?rng ! i + 1"
    by (simp add: date_range_nth)
  show ?thesis
  proof (intro exI[of _ ?df] conjI)
    show "load_mock G utc_today days projects = Inr ?df" by (rule eq)
    show "map (\<lambda>r. (day r, project r)) ?df =
        concat (map (\<lambda>d. map (\<lambda>p. (d, p)) projects) ?rng)"
      using keys prod by (rule trans)
    show "distinct (map (\<lambda>r. (day r, project r)) ?df)"
      using dist by (simp only: keys)
    show "set (map (\<lambda>r. (day r, project r)) ?df) =
        {utc_today - int days + 1 .. utc_today} \<times> set projects"
      using st by (simp only: keys)
    show "?rng = [utc_today - int days + 1 .. utc_today]" by (rule date_range_upto)
    show "sorted_wrt (<) ?rng" by (rule date_range_increasing)
    show "\<forall>i. Suc i < days \<longrightarrow> ?rng ! Suc i = ?rng ! i + 1" by (rule gap)
    show "1 \<le> days \<longrightarrow> last ?rng = utc_today" by (simp add: date_range_last)
  qed
qed

theorem load_mock_pairs_witness:
  "numpy_ok counter_rng \<and> distinct [''uniswap'', ''aave''] \<and>
   (\<exists>df. load_mock counter_rng 20000 7 [''uniswap'', ''aave''] = Inr df \<and>
      map (\<lambda>r. (day r, project r)) df =
        concat (map (\<lambda>d. map (\<lambda>p. (d, p)) [''uniswap'', ''aave'']) (date_range 20000 7)) \<and>
      distinct (map (\<lambda>r. (day r, project r)) df) \<and>
      date_range 20000 7 = [19994 .. 20000])"
proof -
  have d: "distinct [''uniswap'', ''aave'']" by simp
  from load_mock_pairs [OF counter_rng_ok d, of 20000 7]
  obtain df where
    "load_mock counter_rng 20000 7 [''uniswap'', ''aave''] = Inr df"
    "map (\<lambda>r. (day r, project r)) df =
        concat (map (\<lambda>d. map (\<lambda>p. (d, p)) [''uniswap'', ''aave'']) (date_range 20000 7))"
    "distinct (map (\<lambda>r. (day r, project r)) df)"
    "date_range 20000 7 = [20000 - int 7 + 1 .. 20000]"
    by blast
  then show ?thesis using counter_rng_ok d by auto
qed

text \<open>
  C3. Every row of the frame has a non-negative \<open>amount_usd\<close>, and it is its
  \<open>tx_count\<close> times a factor from 0.5 (included) to 2.0 (excluded), rounded to two
  decimals.
\<close>

theorem load_mock_amount:
  assumes "numpy_ok G"
  shows "\<exists>df. load_mock G utc_today days projects = Inr df \<and>
           (\<forall>r \<in> set df. 0 \<le> amount_usd r \<and>
              (\<exists>factor. 1 / 2 \<le> factor \<and> factor < 2 \<and>
                 amount_usd r = round2 (of_int (tx_count r) * factor)))"
proof -
  let ?df = "map mk_row (zip (List.product (date_range utc_today days) projects)
      (zip (tx_draw G (days * length projects)) (us_draw G (days * length projects))))"
  have eq: "load_mock G utc_today days projects = Inr ?df"
    by (rule load_mock_eq[OF assms])
  have "0 \<le> amount_usd r \<and>
      (\<exists>factor. 1 / 2 \<le> factor \<and> factor < 2 \<and>
         amount_usd r = round2 (of_int (tx_count r) * factor))"
    if "r \<in> set ?df" for r
  proof -
    from that obtain d p t u where
      r: "r = mk_row ((d, p), (t, u))" and
      "(d, p) \<in> set (List.product (date_range utc_today days) projects)" and
      t: "t \<in> set (tx_draw G (days * length projects))" and
      u: "u \<in> set (us_draw G (days * length projects))"
      by (rule in_rows)
    from tx_draw_range[OF assms t] us_draw_range[OF assms u]
    have b: "800 \<le> t" "1 / 2 \<le> u" "u < 2" by simp_all
    then have "0 \<le> real_of_int t * u" by simp
    then have "0 \<le> round2 (real_of_int t * u)" by (rule round2_nonneg)
    with b r show ?thesis by (auto simp: mk_row_def)
  qed
  with eq show ?thesis by blast
qed

theorem load_mock_amount_witness:
  "numpy_ok counter_rng \<and>
   (\<exists>df. load_mock counter_rng 100 2 [''uniswap'', ''aave''] = Inr df \<and>
      df = [\<lparr>day = 99, project = ''uniswap'', tx_count = 2354, amount_usd = 15301 / 4\<rparr>,
        \<lparr>day = 99, project = ''aave'', tx_count = 1065, amount_usd = 73219 / 100\<rparr>,
        \<lparr>day = 100, project = ''uniswap'', tx_count = 1976, amount_usd = 2470\<rparr>,
        \<lparr>day = 100, project = ''aave'', tx_count = 2887, amount_usd = 523269 / 100\<rparr>] \<and>
      (\<forall>r \<in> set df. 0 \<le> amount_usd r \<and>
         (\<exists>factor. 1 / 2 \<le> factor \<and> factor < 2 \<and>
            amount_usd r = round2 (of_int (tx_count r) * factor))))"
  using load_mock_amount [OF counter_rng_ok, of 100 2 "[''uniswap'', ''aave'']"]
    counter_rng_ok
  unfolding counter_rng_two_days by blast

text \<open>
  C4. Every row of the frame has a \<open>tx_count\<close> of at least 800 and below 3000.
\<close>

theorem load_mock_tx_count:
  assumes "numpy_ok G"
  shows "\<exists>df. load_mock G utc_today days projects = Inr df \<and>
           (\<forall>r \<in> set df. 800 \<le> tx_count r \<and> tx_count r < 3000)"
proof -
  let ?df = "map mk_row (zip (List.product (date_range utc_today days) projects)
      (zip (tx_draw G (days * length projects)) (us_draw G (days * length projects))))"
  have eq: "load_mock G utc_today days projects = Inr ?df"
    by (rule load_mock_eq[OF assms])
  have "800 \<le> tx_count r \<and> tx_count r < 3000" if "r \<in> set ?df" for r
  proof -
    from that obtain d p t u where
      r: "r = mk_row ((d, p), (t, u))" and
      "(d, p) \<in> set (List.product (date_range utc_today days) projects)" and
      t: "t \<in> set (tx_draw G (days * length projects))" and
      "u \<in> set (us_draw G (days * length projects))"
      by (rule in_rows)
    from tx_draw_range[OF assms t] r show ?thesis by (simp add: mk_row_def)
  qed
  with eq show ?thesis by blast
qed

theorem load_mock_tx_count_witness:
  "numpy_ok counter_rng \<and>
   (\<exists>df. load_mock counter_rng 100 2 [''uniswap'', ''aave''] = Inr df \<and>
      df = [\<lparr>day = 99, project = ''uniswap'', tx_count = 2354, amount_usd = 15301 / 4\<rparr>,
        \<lparr>day = 99, project = ''aave'', tx_count = 1065, amount_usd = 73219 / 100\<rparr>,
        \<lparr>day = 100, project = ''uniswap'', tx_count = 1976, amount_usd = 2470\<rparr>,
        \<lparr>day = 100, project = ''aave'', tx_count = 2887, amount_usd = 523269 / 100\<rparr>] \<and>
      (\<forall>r \<in> set df. 800 \<le> tx_count r \<and> tx_count r < 3000))"
  using load_mock_tx_count [OF counter_rng_ok, of 100 2 "[''uniswap'', ''aave'']"]
    counter_rng_ok
  unfolding counter_rng_two_days by blast

section \<open>Claims about the script body\<close>

lemma load_mock_days:
  assumes "numpy_ok G" and "load_mock G t n ps = Inr df" and "r \<in> set df"
  shows "t - int n + 1 \<le> day r \<and> day r \<le> t"
proof -
  from assms(2) load_mock_eq[OF assms(1), of t n ps] assms(3)
  have "r \<in> set (map mk_row (zip (List.product (date_range t n) ps)
      (zip (tx_draw G (n * length ps)) (us_draw G (n * length ps)))))"
    by simp
  then obtain d p x u where
    r: "r = mk_row ((d, p), (x, u))" and
    dp: "(d, p) \<in> set (List.product (date_range t n) ps)" and
    "x \<in> set (tx_draw G (n * length ps))" and
    "u \<in> set (us_draw G (n * length ps))"
    by (rule in_rows)
  from dp have "d \<in> set (date_range t n)" by simp
  then have "t - int n + 1 \<le> d \<and> d \<le> t" by (simp add: date_range_upto)
  with r show ?thesis by (simp add: mk_row_def)
qed



lemma dom_cache_data:
  "dom (snd (cache_data c now key computed)) \<subseteq> insert key (dom c)"
  by (auto simp: cache_data_def cache_miss_def split: option.splits prod.splits sum.splits if_splits)

lemma snd_rerun:
  "snd (rerun G c now t n selected d1 m topn) =
   snd (cached_load_mock G c now t n (projects_arg selected))"
  by (simp add: rerun_def filtered_def split: prod.splits sum.splits)

text \<open>
  C5. The date filter with the range from \<open>d1\<close> to \<open>d2\<close> raises nothing and keeps
  exactly the rows whose day lies in the range, both ends included, in their order
  (a subsequence of the input). The result is empty when \<open>d1\<close> is after \<open>d2\<close>, and
  when the range ends before every day of the frame, in particular before the first
  day of a generated frame.
\<close>

theorem date_filter_range:
  "\<exists>out. date_filter df [d1, d2] = Inr out \<and>
     out = filter (\<lambda>r. d1 \<le> day r \<and> day r \<le> d2) df \<and>
     subseq out df \<and>
     set out = {r \<in> set df. d1 \<le> day r \<and> day r \<le> d2} \<and>
     (d2 < d1 \<longrightarrow> out = []) \<and>
     ((\<forall>r \<in> set df. d2 < day r) \<longrightarrow> out = []) \<and>
     (numpy_ok G \<and> load_mock G utc_today days projects = Inr df \<and>
        d2 < utc_today - int days + 1 \<longrightarrow> out = [])"
proof -
  let ?out = "filter (\<lambda>r. d1 \<le> day r \<and> day r \<le> d2) df"
  have 1: "date_filter df [d1, d2] = Inr ?out" by (simp add: date_filter_def)
  have 2: "d2 < d1 \<longrightarrow> ?out = []" by (auto simp: filter_empty_conv)
  have 3: "(\<forall>r \<in> set df. d2 < day r) \<longrightarrow> ?out = []" by (auto simp: filter_empty_conv)
  have 4: "numpy_ok G \<and> load_mock G utc_today days projects = Inr df \<and>
        d2 < utc_today - int days + 1 \<longrightarrow> ?out = []"
  proof (intro impI)
    assume a: "numpy_ok G \<and> load_mock G utc_today days projects = Inr df \<and>
        d2 < utc_today - int days + 1"
    then have "\<forall>r \<in> set df. d2 < day r"
      using load_mock_days[of G utc_today days projects df] by fastforce
    with 3 show "?out = []" by blast
  qed
  have 5: "set ?out = {r \<in> set df. d1 \<le> day r \<and> day r \<le> d2}" by auto
  from 1 2 3 4 5 show ?thesis by (intro exI[of _ ?out]) simp
qed

theorem date_filter_range_witness:
  "load_mock counter_rng 100 2 [''uniswap'', ''aave''] = Inr [\<lparr>day = 99, project = ''uniswap'', tx_count = 2354, amount_usd = 15301 / 4\<rparr>,
        \<lparr>day = 99, project = ''aave'', tx_count = 1065, amount_usd = 73219 / 100\<rparr>,
        \<lparr>day = 100, project = ''uniswap'', tx_count = 1976, amount_usd = 2470\<rparr>,
        \<lparr>day = 100, project = ''aave'', tx_count = 2887, amount_usd = 523269 / 100\<rparr>] \<and>
   date_filter [\<lparr>day = 99, project = ''uniswap'', tx_count = 2354, amount_usd = 15301 / 4\<rparr>,
        \<lparr>day = 99, project = ''aave'', tx_count = 1065, amount_usd = 73219 / 100\<rparr>,
        \<lparr>day = 100, project = ''uniswap'', tx_count = 1976, amount_usd = 2470\<rparr>,
        \<lparr>day = 100, project = ''aave'', tx_count = 2887, amount_usd = 523269 / 100\<rparr>] [100, 99] = Inr [] \<and>
   date_filter [\<lparr>day = 99, project = ''uniswap'', tx_count = 2354, amount_usd = 15301 / 4\<rparr>,
        \<lparr>day = 99, project = ''aave'', tx_count = 1065, amount_usd = 73219 / 100\<rparr>,
        \<lparr>day = 100, project = ''uniswap'', tx_count = 1976, amount_usd = 2470\<rparr>,
        \<lparr>day = 100, project = ''aave'', tx_count = 2887, amount_usd = 523269 / 100\<rparr>] [10, 20] = Inr [] \<and>
   date_filter [\<lparr>day = 99, project = ''uniswap'', tx_count = 2354, amount_usd = 15301 / 4\<rparr>,
        \<lparr>day = 99, project = ''aave'', tx_count = 1065, amount_usd = 73219 / 100\<rparr>,
        \<lparr>day = 100, project = ''uniswap'', tx_count = 1976, amount_usd = 2470\<rparr>,
        \<lparr>day = 100, project = ''aave'', tx_count = 2887, amount_usd = 523269 / 100\<rparr>] [100, 100] =
     Inr [\<lparr>day = 100, project = ''uniswap'', tx_count = 1976, amount_usd = 2470\<rparr>,
          \<lparr>day = 100, project = ''aave'', tx_count = 2887, amount_usd = 523269 / 100\<rparr>]"
  using date_filter_range [of "[\<lparr>day = 99, project = ''uniswap'', tx_count = 2354, amount_usd = 15301 / 4\<rparr>,
        \<lparr>day = 99, project = ''aave'', tx_count = 1065, amount_usd = 73219 / 100\<rparr>,
        \<lparr>day = 100, project = ''uniswap'', tx_count = 1976, amount_usd = 2470\<rparr>,
        \<lparr>day = 100, project = ''aave'', tx_count = 2887, amount_usd = 523269 / 100\<rparr>]" 100 99 counter_rng 100 2 "[''uniswap'', ''aave'']"]
    date_filter_range [of "[\<lparr>day = 99, project = ''uniswap'', tx_count = 2354, amount_usd = 15301 / 4\<rparr>,
        \<lparr>day = 99, project = ''aave'', tx_count = 1065, amount_usd = 73219 / 100\<rparr>,
        \<lparr>day = 100, project = ''uniswap'', tx_count = 1976, amount_usd = 2470\<rparr>,
        \<lparr>day = 100, project = ''aave'', tx_count = 2887, amount_usd = 523269 / 100\<rparr>]" 10 20 counter_rng 100 2 "[''uniswap'', ''aave'']"]
    date_filter_range [of "[\<lparr>day = 99, project = ''uniswap'', tx_count = 2354, amount_usd = 15301 / 4\<rparr>,
        \<lparr>day = 99, project = ''aave'', tx_count = 1065, amount_usd = 73219 / 100\<rparr>,
        \<lparr>day = 100, project = ''uniswap'', tx_count = 1976, amount_usd = 2470\<rparr>,
        \<lparr>day = 100, project = ''aave'', tx_count = 2887, amount_usd = 523269 / 100\<rparr>]" 100 100 counter_rng 100 2 "[''uniswap'', ''aave'']"]
    counter_rng_ok counter_rng_two_days
  by simp




text \<open>
  C8. The tuple handed to \<open>load_mock\<close> is never empty: it is the selection when there
  is one and the five known projects otherwise. A rerun reaches the generator only
  through the cache with that tuple, so a cache whose keys all have a non-empty
  tuple keeps that property after the rerun.
\<close>

theorem generator_projects_nonempty:
  "projects_arg selected \<noteq> [] \<and>
   (selected = [] \<longrightarrow> projects_arg selected = all_projects) \<and>
   snd (rerun G c now utc_today days selected d1 m topn) =
     snd (cached_load_mock G c now utc_today days (projects_arg selected)) \<and>
   ((\<forall>k \<in> dom c. snd k \<noteq> []) \<longrightarrow>
      (\<forall>k \<in> dom (snd (rerun G c now utc_today days selected d1 m topn)). snd k \<noteq> []))"
proof -
  have ne: "projects_arg selected \<noteq> []"
    by (simp add: projects_arg_def all_projects_def)
  have "dom (snd (rerun G c now utc_today days selected d1 m topn))
      \<subseteq> insert (days, projects_arg selected) (dom c)"
    unfolding snd_rerun cached_load_mock_def by (rule dom_cache_data)
  then have "k = (days, projects_arg selected) \<or> k \<in> dom c"
    if "k \<in> dom (snd (rerun G c now utc_today days selected d1 m topn))" for k
    using that by blast
  with ne have "(\<forall>k \<in> dom c. snd k \<noteq> []) \<longrightarrow>
      (\<forall>k \<in> dom (snd (rerun G c now utc_today days selected d1 m topn)). snd k \<noteq> [])"
    by (metis snd_conv)
  with ne show ?thesis by (simp add: snd_rerun projects_arg_def)
qed

theorem generator_projects_nonempty_witness:
  "projects_arg [] = [''uniswap'', ''aave'', ''curve'', ''balancer'', ''sushiswap''] \<and>
   \<not> (\<exists>k \<in> dom (snd (rerun counter_rng [(7, [''aave'']) \<mapsto> ([], 0)] 0 100 7 [] [99, 100]
        Amount_usd 10)). snd k = [])"
  using generator_projects_nonempty [of "[]" counter_rng "[(7, [''aave'']) \<mapsto> ([], 0)]" 0
      100 7 "[99, 100]" Amount_usd 10]
  by (simp add: all_projects_def)

section \<open>Columns of the generated frame\<close>

lemma map_np_repeat: "map f (np_repeat xs k) = np_repeat (map f xs) k"
  by (simp add: np_repeat_def map_concat comp_def)

lemma date_range_shift: "map (\<lambda>d. d - t) (date_range t n) = date_range 0 n"
  by (simp add: date_range_def)

lemma row_columns:
  assumes "length L = length tx" and "length tx = length us"
  shows "map day (map mk_row (zip L (zip tx us))) = map fst L"
    and "map project (map mk_row (zip L (zip tx us))) = map snd L"
    and "map tx_count (map mk_row (zip L (zip tx us))) = tx"
    and "map amount_usd (map mk_row (zip L (zip tx us))) =
           map (\<lambda>(x, u). round2 (of_int x * u)) (zip tx us)"
proof -
  have len: "length L = length (zip tx us)" using assms by simp
  have "map day (map mk_row (zip L (zip tx us))) = map fst (map fst (zip L (zip tx us)))"
    by (simp add: mk_row_def split_beta)
  then show "map day (map mk_row (zip L (zip tx us))) = map fst L"
    using len by (simp only: map_fst_zip)
  have "map project (map mk_row (zip L (zip tx us))) = map snd (map fst (zip L (zip tx us)))"
    by (simp add: mk_row_def split_beta)
  then show "map project (map mk_row (zip L (zip tx us))) = map snd L"
    using len by (simp only: map_fst_zip)
  have "map tx_count (map mk_row (zip L (zip tx us))) = map fst (map snd (zip L (zip tx us)))"
    by (simp add: mk_row_def split_beta)
  then show "map tx_count (map mk_row (zip L (zip tx us))) = tx"
    using len assms(2) by (simp only: map_snd_zip map_fst_zip)
  have "map amount_usd (map mk_row (zip L (zip tx us))) =
      map (\<lambda>(x, u). round2 (of_int x * u)) (map snd (zip L (zip tx us)))"
    by (simp add: mk_row_def split_beta)
  then show "map amount_usd (map mk_row (zip L (zip tx us))) =
           map (\<lambda>(x, u). round2 (of_int x * u)) (zip tx us)"
    using len by (simp only: map_snd_zip)
qed

lemma load_mock_columns:
  assumes "numpy_ok G"
  shows "\<exists>df. load_mock G t n ps = Inr df \<and>
     map day df = np_repeat (date_range t n) (length ps) \<and>
     map project df = tuple_mul ps n \<and>
     map tx_count df = tx_draw G (n * length ps) \<and>
     map amount_usd df = map (\<lambda>(x, u). round2 (of_int x * u))
        (zip (tx_draw G (n * length ps)) (us_draw G (n * length ps)))"
proof -
  let ?L = "List.product (date_range t n) ps"
  let ?tx = "tx_draw G (n * length ps)"
  let ?us = "us_draw G (n * length ps)"
  have l1: "length ?L = length ?tx" using assms by (simp add: length_date_range length_tx_draw)
  have l2: "length ?tx = length ?us" using assms by (simp add: length_tx_draw length_us_draw)
  have z: "?L = zip (np_repeat (date_range t n) (length ps)) (tuple_mul ps n)"
    using zip_repeat_mul[of "date_range t n" ps] by (simp add: length_date_range)
  have lz: "length (np_repeat (date_range t n) (length ps)) = length (tuple_mul ps n)"
    by (simp add: length_np_repeat length_tuple_mul length_date_range)
  have f: "map fst ?L = np_repeat (date_range t n) (length ps)"
    unfolding z using lz by (rule map_fst_zip)
  have s: "map snd ?L = tuple_mul ps n"
    unfolding z using lz by (rule map_snd_zip)
  show ?thesis
    using load_mock_eq[OF assms, of t n ps] row_columns[OF l1 l2] f s by simp
qed

lemma cache_data_miss:
  "\<not> alive c now key \<Longrightarrow> cache_data c now key (Inr v) = (Inr v, c(key \<mapsto> (v, now)))"
  by (auto simp: alive_def cache_data_def cache_miss_def split: option.splits)

lemma cache_data_hit:
  "c key = Some (v, t0) \<Longrightarrow> now < t0 + ttl \<Longrightarrow> cache_data c now key computed = (Inr v, c)"
  by (simp add: cache_data_def)

lemma cache_data_expired:
  "c key = Some (v, t0) \<Longrightarrow> t0 + ttl \<le> now \<Longrightarrow>
   cache_data c now key (Inr w) = (Inr w, c(key \<mapsto> (w, now)))"
  by (simp add: cache_data_def cache_miss_def)

lemma load_mock_shape:
  assumes "numpy_ok G"
    and "load_mock G t n ps = Inr v" and "load_mock G t' n ps = Inr v'"
  shows "length v' = length v \<and> map project v' = map project v \<and>
     map (\<lambda>r. day r - t') v' = map (\<lambda>r. day r - t) v"
proof -
  from load_mock_columns[OF assms(1), of t n ps] assms(2)
  have c: "map day v = np_repeat (date_range t n) (length ps)"
    "map project v = tuple_mul ps n" by auto
  from load_mock_columns[OF assms(1), of t' n ps] assms(3)
  have c': "map day v' = np_repeat (date_range t' n) (length ps)"
    "map project v' = tuple_mul ps n" by auto
  have "map (\<lambda>r. day r - t) v = map (\<lambda>d. d - t) (map day v)" by simp
  also have "\<dots> = np_repeat (date_range 0 n) (length ps)"
    by (simp only: c map_np_repeat date_range_shift)
  finally have d: "map (\<lambda>r. day r - t) v = np_repeat (date_range 0 n) (length ps)" .
  have "map (\<lambda>r. day r - t') v' = map (\<lambda>d. d - t') (map day v')" by simp
  also have "\<dots> = np_repeat (date_range 0 n) (length ps)"
    by (simp only: c' map_np_repeat date_range_shift)
  finally have d': "map (\<lambda>r. day r - t') v' = np_repeat (date_range 0 n) (length ps)" .
  have "length (map project v') = length (map project v)" by (simp only: c c')
  then have "length v' = length v" by simp
  with c c' d d' show ?thesis by simp
qed

section \<open>Claims about caching and determinism\<close>

text \<open>
  C6. Take a call that finds no live entry for its key, so that it computes the frame
  and stores it at time \<open>t1\<close>. Every call with the same key before \<open>t1 + 600\<close>
  returns that same frame and leaves the cache as it is, whatever the reference day
  has become. A call at \<open>t1 + 600\<close> or later recomputes: its frame has the same
  number of rows, the same project column and the same days counted from its own
  reference day, and is the same frame when the reference day has not changed.
\<close>

theorem cache_ttl:
  assumes "numpy_ok G" and "\<not> alive c t1 (days, projects)"
  shows "\<exists>v1 c1. cached_load_mock G c t1 today1 days projects = (Inr v1, c1) \<and>
     load_mock G today1 days projects = Inr v1 \<and>
     (\<forall>t2 today2. t2 < t1 + ttl \<longrightarrow>
        cached_load_mock G c1 t2 today2 days projects = (Inr v1, c1)) \<and>
     (\<forall>t2 today2. t1 + ttl \<le> t2 \<longrightarrow>
        (\<exists>v2 c2. cached_load_mock G c1 t2 today2 days projects = (Inr v2, c2) \<and>
           load_mock G today2 days projects = Inr v2 \<and>
           length v2 = length v1 \<and>
           map project v2 = map project v1 \<and>
           map (\<lambda>r. day r - today2) v2 = map (\<lambda>r. day r - today1) v1 \<and>
           (today2 = today1 \<longrightarrow> v2 = v1)))"
proof -
  let ?key = "(days, projects)"
  from load_mock_eq[OF assms(1), of today1 days projects]
  obtain v1 where v1: "load_mock G today1 days projects = Inr v1" by blast
  let ?c1 = "c(?key \<mapsto> (v1, t1))"
  have first: "cached_load_mock G c t1 today1 days projects = (Inr v1, ?c1)"
    unfolding cached_load_mock_def v1 using assms(2) by (rule cache_data_miss)
  have entry: "?c1 ?key = Some (v1, t1)" by simp
  have hit: "cached_load_mock G ?c1 t2 today2 days projects = (Inr v1, ?c1)"
    if "t2 < t1 + ttl" for t2 today2
    unfolding cached_load_mock_def using entry that by (rule cache_data_hit)
  have late: "\<exists>v2 c2. cached_load_mock G ?c1 t2 today2 days projects = (Inr v2, c2) \<and>
           load_mock G today2 days projects = Inr v2 \<and>
           length v2 = length v1 \<and>
           map project v2 = map project v1 \<and>
           map (\<lambda>r. day r - today2) v2 = map (\<lambda>r. day r - today1) v1 \<and>
           (today2 = today1 \<longrightarrow> v2 = v1)"
    if "t1 + ttl \<le> t2" for t2 today2
  proof -
    from load_mock_eq[OF assms(1), of today2 days projects]
    obtain v2 where v2: "load_mock G today2 days projects = Inr v2" by blast
    have "cached_load_mock G ?c1 t2 today2 days projects = (Inr v2, ?c1(?key \<mapsto> (v2, t2)))"
      unfolding cached_load_mock_def v2 using entry that by (rule cache_data_expired)
    moreover have "today2 = today1 \<longrightarrow> v2 = v1" using v1 v2 by auto
    ultimately show ?thesis
      using v2 load_mock_shape[OF assms(1) v1 v2] by blast
  qed
  from first v1 hit late show ?thesis by blast
qed

theorem cache_ttl_witness:
  "\<not> alive Map.empty 0 (2, [''uniswap'', ''aave'']) \<and>
   cached_load_mock counter_rng Map.empty 0 100 2 [''uniswap'', ''aave''] =
     (Inr [\<lparr>day = 99, project = ''uniswap'', tx_count = 2354, amount_usd = 15301 / 4\<rparr>,
        \<lparr>day = 99, project = ''aave'', tx_count = 1065, amount_usd = 73219 / 100\<rparr>,
        \<lparr>day = 100, project = ''uniswap'', tx_count = 1976, amount_usd = 2470\<rparr>,
        \<lparr>day = 100, project = ''aave'', tx_count = 2887, amount_usd = 523269 / 100\<rparr>], [(2, [''uniswap'', ''aave'']) \<mapsto> ([\<lparr>day = 99, project = ''uniswap'', tx_count = 2354, amount_usd = 15301 / 4\<rparr>,
        \<lparr>day = 99, project = ''aave'', tx_count = 1065, amount_usd = 73219 / 100\<rparr>,
        \<lparr>day = 100, project = ''uniswap'', tx_count = 1976, amount_usd = 2470\<rparr>,
        \<lparr>day = 100, project = ''aave'', tx_count = 2887, amount_usd = 523269 / 100\<rparr>], 0)]) \<and>
   cached_load_mock counter_rng [(2, [''uniswap'', ''aave'']) \<mapsto> ([\<lparr>day = 99, project = ''uniswap'', tx_count = 2354, amount_usd = 15301 / 4\<rparr>,
        \<lparr>day = 99, project = ''aave'', tx_count = 1065, amount_usd = 73219 / 100\<rparr>,
        \<lparr>day = 100, project = ''uniswap'', tx_count = 1976, amount_usd = 2470\<rparr>,
        \<lparr>day = 100, project = ''aave'', tx_count = 2887, amount_usd = 523269 / 100\<rparr>], 0)] 599 101 2 [''uniswap'', ''aave''] =
     (Inr [\<lparr>day = 99, project = ''uniswap'', tx_count = 2354, amount_usd = 15301 / 4\<rparr>,
        \<lparr>day = 99, project = ''aave'', tx_count = 1065, amount_usd = 73219 / 100\<rparr>,
        \<lparr>day = 100, project = ''uniswap'', tx_count = 1976, amount_usd = 2470\<rparr>,
        \<lparr>day = 100, project = ''aave'', tx_count = 2887, amount_usd = 523269 / 100\<rparr>], [(2, [''uniswap'', ''aave'']) \<mapsto> ([\<lparr>day = 99, project = ''uniswap'', tx_count = 2354, amount_usd = 15301 / 4\<rparr>,
        \<lparr>day = 99, project = ''aave'', tx_count = 1065, amount_usd = 73219 / 100\<rparr>,
        \<lparr>day = 100, project = ''uniswap'', tx_count = 1976, amount_usd = 2470\<rparr>,
        \<lparr>day = 100, project = ''aave'', tx_count = 2887, amount_usd = 523269 / 100\<rparr>], 0)]) \<and>
   (\<exists>v2 c2. cached_load_mock counter_rng [(2, [''uniswap'', ''aave'']) \<mapsto> ([\<lparr>day = 99, project = ''uniswap'', tx_count = 2354, amount_usd = 15301 / 4\<rparr>,
        \<lparr>day = 99, project = ''aave'', tx_count = 1065, amount_usd = 73219 / 100\<rparr>,
        \<lparr>day = 100, project = ''uniswap'', tx_count = 1976, amount_usd = 2470\<rparr>,
        \<lparr>day = 100, project = ''aave'', tx_count = 2887, amount_usd = 523269 / 100\<rparr>], 0)] 600 101 2 [''uniswap'', ''aave''] = (Inr v2, c2) \<and>
      length v2 = 4 \<and>
      map project v2 = [''uniswap'', ''aave'', ''uniswap'', ''aave''] \<and>
      map day v2 = [100, 100, 101, 101])"
proof -
  let ?rows = "[\<lparr>day = 99, project = ''uniswap'', tx_count = 2354, amount_usd = 15301 / 4\<rparr>,
        \<lparr>day = 99, project = ''aave'', tx_count = 1065, amount_usd = 73219 / 100\<rparr>,
        \<lparr>day = 100, project = ''uniswap'', tx_count = 1976, amount_usd = 2470\<rparr>,
        \<lparr>day = 100, project = ''aave'', tx_count = 2887, amount_usd = 523269 / 100\<rparr>]"
  let ?c1 = "[(2, [''uniswap'', ''aave'']) \<mapsto> (?rows, 0)]"
  have na: "\<not> alive Map.empty 0 (2, [''uniswap'', ''aave''])"
    by (simp add: alive_def)
  have first: "cached_load_mock counter_rng Map.empty 0 100 2 [''uniswap'', ''aave''] = (Inr ?rows, ?c1)"
    by (simp add: cached_load_mock_def cache_data_def cache_miss_def counter_rng_two_days)
  from cache_ttl [OF counter_rng_ok na, of 100] first
  have hit: "\<forall>t2 today2. t2 < 0 + ttl \<longrightarrow>
        cached_load_mock counter_rng ?c1 t2 today2 2 [''uniswap'', ''aave''] = (Inr ?rows, ?c1)"
    and late: "\<forall>t2 today2. 0 + ttl \<le> t2 \<longrightarrow>
        (\<exists>v2 c2. cached_load_mock counter_rng ?c1 t2 today2 2 [''uniswap'', ''aave''] = (Inr v2, c2) \<and>
           load_mock counter_rng today2 2 [''uniswap'', ''aave''] = Inr v2 \<and>
           length v2 = length ?rows \<and>
           map project v2 = map project ?rows \<and>
           map (\<lambda>r. day r - today2) v2 = map (\<lambda>r. day r - 100) ?rows \<and>
           (today2 = 100 \<longrightarrow> v2 = ?rows))"
    by auto
  have "(599::nat) < 0 + ttl" by (simp add: ttl_def)
  with hit have second: "cached_load_mock counter_rng ?c1 599 101 2 [''uniswap'', ''aave''] = (Inr ?rows, ?c1)"
    by blast
  have "0 + ttl \<le> (600::nat)" by (simp add: ttl_def)
  with late obtain v2 c2 where
    v2: "cached_load_mock counter_rng ?c1 600 101 2 [''uniswap'', ''aave''] = (Inr v2, c2)"
      "length v2 = length ?rows" "map project v2 = map project ?rows"
      "map (\<lambda>r. day r - 101) v2 = map (\<lambda>r. day r - 100) ?rows"
    by blast
  have "map day v2 = map (\<lambda>d. d + 101) (map (\<lambda>r. day r - 101) v2)" by simp
  also have "\<dots> = [100, 100, 101, 101]" unfolding v2(4) by simp
  finally have "map day v2 = [100, 100, 101, 101]" .
  with v2(1,2,3) have third: "\<exists>v2 c2.
      cached_load_mock counter_rng ?c1 600 101 2 [''uniswap'', ''aave''] = (Inr v2, c2) \<and>
      length v2 = 4 \<and>
      map project v2 = [''uniswap'', ''aave'', ''uniswap'', ''aave''] \<and>
      map day v2 = [100, 100, 101, 101]"
    by auto
  from na first second third show ?thesis by blast
qed

text \<open>
  C10. The generator is seeded with 42 inside every call, so two calls with the same
  day count and project tuples of the same length return the same \<open>tx_count\<close> and
  \<open>amount_usd\<close> columns, with no cache involved and whatever the two reference days and
  the project names are. With the same tuple the project column agrees as well and the
  days agree counted from the reference day; with the same reference day too, the two
  frames are equal.
\<close>

theorem load_mock_numeric_deterministic:
  assumes "numpy_ok G" and "length ps' = length ps"
  shows "\<exists>df df'. load_mock G t n ps = Inr df \<and> load_mock G t' n ps' = Inr df' \<and>
     map tx_count df' = map tx_count df \<and>
     map amount_usd df' = map amount_usd df \<and>
     (ps' = ps \<longrightarrow> map project df' = map project df \<and>
        map (\<lambda>r. day r - t') df' = map (\<lambda>r. day r - t) df) \<and>
     (ps' = ps \<and> t' = t \<longrightarrow> df' = df)"
proof -
  from load_mock_columns[OF assms(1), of t n ps]
  obtain df where df: "load_mock G t n ps = Inr df"
    "map tx_count df = tx_draw G (n * length ps)"
    "map amount_usd df = map (\<lambda>(x, u). round2 (of_int x * u))
        (zip (tx_draw G (n * length ps)) (us_draw G (n * length ps)))"
    by blast
  from load_mock_columns[OF assms(1), of t' n ps']
  obtain df' where df': "load_mock G t' n ps' = Inr df'"
    "map tx_count df' = tx_draw G (n * length ps')"
    "map amount_usd df' = map (\<lambda>(x, u). round2 (of_int x * u))
        (zip (tx_draw G (n * length ps')) (us_draw G (n * length ps')))"
    by blast
  have num: "map tx_count df' = map tx_count df" "map amount_usd df' = map amount_usd df"
    using df(2,3) df'(2,3) assms(2) by simp_all
  have shape: "map project df' = map project df \<and>
        map (\<lambda>r. day r - t') df' = map (\<lambda>r. day r - t) df" if "ps' = ps"
    using load_mock_shape[OF assms(1) df(1), of t' df'] df'(1) that by simp
  have same: "df' = df" if "ps' = ps \<and> t' = t"
    using df(1) df'(1) that by simp
  from df(1) df'(1) num shape same show ?thesis by blast
qed

theorem load_mock_numeric_deterministic_witness:
  "length [''curve'', ''balancer''] = length [''uniswap'', ''aave''] \<and>
   (\<exists>df'. load_mock counter_rng 250 2 [''curve'', ''balancer''] = Inr df' \<and>
      map tx_count df' = [2354, 1065, 1976, 2887] \<and>
      map amount_usd df' = [15301 / 4, 73219 / 100, 2470, 523269 / 100])"
proof -
  have len: "length [''curve'', ''balancer''] = length [''uniswap'', ''aave'']" by simp
  from load_mock_numeric_deterministic [OF counter_rng_ok len, of 100 2 250]
  show ?thesis unfolding counter_rng_two_days by auto
qed

section \<open>Claims about the breakdown\<close>

lemma counter_rng_week:
  "case load_mock counter_rng 100 7 [''uniswap'', ''aave''] of
     Inl e \<Rightarrow> False
   | Inr df \<Rightarrow>
       length df = 14 \<and>
       groupby_sum df Amount_usd = [(''aave'', 1534217 / 100), (''uniswap'', 30121 / 2)] \<and>
       breakdown df Amount_usd 1 = [(''aave'', 1534217 / 100)] \<and>
       groupby_sum df Tx_count = [(''aave'', 12717), (''uniswap'', 12940)] \<and>
       breakdown df Tx_count 1 = [(''uniswap'', 12940)]"
  by code_simp

lemma set_groupby_sum:
  "set (groupby_sum df m) = (\<lambda>p. (p, total df m p)) ` project ` set df"
  by (simp add: groupby_sum_def)

lemma keys_groupby_sum: "map fst (groupby_sum df m) = sort (remdups (map project df))"
  by (simp add: groupby_sum_def comp_def)

lemma length_groupby_sum: "length (groupby_sum df m) = card (project ` set df)"
  by (simp add: groupby_sum_def length_remdups_card_conv)

lemma sorted_sort_values_desc: "sorted_wrt (\<lambda>a b. snd b \<le> snd a) (sort_values_desc g)"
proof -
  have "sorted (map (\<lambda>x. - snd x) (sort_values_desc g))"
    unfolding sort_values_desc_def by (rule sorted_sort_key)
  then show ?thesis by (simp add: sorted_map)
qed

lemma set_sort_values_desc: "set (sort_values_desc g) = set g"
  by (simp add: sort_values_desc_def)

lemma length_sort_values_desc: "length (sort_values_desc g) = length g"
  by (simp add: sort_values_desc_def)

lemma take_beats_drop:
  assumes "sorted_wrt (\<lambda>a b. snd b \<le> snd a) xs"
    and "x \<in> set (take n xs)" and "y \<in> set xs - set (take n xs)"
  shows "snd y \<le> snd (x :: string \<times> real)"
proof -
  from assms(1) have "sorted_wrt (\<lambda>a b. snd b \<le> snd a) (take n xs @ drop n xs)" by simp
  then have "\<forall>a \<in> set (take n xs). \<forall>b \<in> set (drop n xs). snd b \<le> snd a"
    unfolding sorted_wrt_append by blast
  moreover have "set xs = set (take n xs) \<union> set (drop n xs)"
    by (metis append_take_drop_id set_append)
  ultimately show ?thesis using assms(2,3) by blast
qed

lemma head_is_max:
  assumes "sorted_wrt (\<lambda>a b. snd b \<le> snd a) xs" and "xs \<noteq> []"
  shows "take 1 xs = [hd xs] \<and> hd xs \<in> set xs \<and> (\<forall>y \<in> set xs. snd y \<le> snd (hd xs :: string \<times> real))"
  using assms by (cases xs) auto

text \<open>
  C9. The grouped frame has one row per project present, with the sum of the measure
  over that project's rows; sorting permutes those rows into descending order of the
  sum; the breakdown is the first \<open>topn\<close> of them, so it has \<open>topn\<close> rows or all the
  groups if there are fewer, and no group left out has a greater sum than a group kept.
  On a non-empty frame the top 1 is exactly one row: a project whose sum no other
  project exceeds, with that sum.
\<close>

theorem breakdown_top:
  "set (groupby_sum df m) = (\<lambda>p. (p, total df m p)) ` project ` set df \<and>
   distinct (map fst (groupby_sum df m)) \<and>
   mset (sort_values_desc (groupby_sum df m)) = mset (groupby_sum df m) \<and>
   sorted_wrt (\<lambda>a b. snd b \<le> snd a) (sort_values_desc (groupby_sum df m)) \<and>
   breakdown df m topn = take topn (sort_values_desc (groupby_sum df m)) \<and>
   length (breakdown df m topn) = min topn (card (project ` set df)) \<and>
   (\<forall>x \<in> set (breakdown df m topn).
      \<forall>y \<in> set (groupby_sum df m) - set (breakdown df m topn). snd y \<le> snd x) \<and>
   (df \<noteq> [] \<longrightarrow>
      (\<exists>p \<in> project ` set df. breakdown df m 1 = [(p, total df m p)] \<and>
         (\<forall>q \<in> project ` set df. total df m q \<le> total df m p)))"
proof -
  let ?g = "groupby_sum df m"
  let ?s = "sort_values_desc ?g"
  have 1: "set ?g = (\<lambda>p. (p, total df m p)) ` project ` set df" by (rule set_groupby_sum)
  have 2: "distinct (map fst ?g)" by (simp add: keys_groupby_sum)
  have 3: "mset ?s = mset ?g" by (simp add: sort_values_desc_def)
  have 4: "sorted_wrt (\<lambda>a b. snd b \<le> snd a) ?s" by (rule sorted_sort_values_desc)
  have 5: "breakdown df m topn = take topn ?s" by (simp add: breakdown_def)
  have 6: "length (breakdown df m topn) = min topn (card (project ` set df))"
    by (simp add: breakdown_def length_sort_values_desc length_groupby_sum min.commute)
  have 7: "\<forall>x \<in> set (breakdown df m topn).
      \<forall>y \<in> set ?g - set (breakdown df m topn). snd y \<le> snd x"
    using take_beats_drop[OF 4, of _ topn] unfolding 5 set_sort_values_desc by blast
  have 8: "\<exists>p \<in> project ` set df. breakdown df m 1 = [(p, total df m p)] \<and>
         (\<forall>q \<in> project ` set df. total df m q \<le> total df m p)" if "df \<noteq> []"
  proof -
    from that have "set ?g \<noteq> {}" unfolding 1 by simp
    then have "?g \<noteq> []" by auto
    then have "?s \<noteq> []" using length_sort_values_desc[of ?g] by auto
    from head_is_max[OF 4 this]
    have h: "take 1 ?s = [hd ?s]" "hd ?s \<in> set ?s" "\<forall>y \<in> set ?s. snd y \<le> snd (hd ?s)"
      by simp_all
    from h(2) obtain p where p: "p \<in> project ` set df" "hd ?s = (p, total df m p)"
      unfolding set_sort_values_desc 1 by blast
    have "total df m q \<le> total df m p" if "q \<in> project ` set df" for q
    proof -
      from that have "(q, total df m q) \<in> set ?s" unfolding set_sort_values_desc 1 by blast
      with h(3) p(2) show ?thesis by fastforce
    qed
    with p h(1) show ?thesis by (auto simp: breakdown_def)
  qed
  from 1 2 3 4 5 6 7 8 show ?thesis by blast
qed

theorem breakdown_top_witness:
  "\<exists>df. load_mock counter_rng 100 7 [''uniswap'', ''aave''] = Inr df \<and>
     length df = 14 \<and> df \<noteq> [] \<and>
     breakdown df Amount_usd 1 = [(''aave'', 1534217 / 100)] \<and>
     total df Amount_usd ''aave'' = 1534217 / 100 \<and>
     total df Amount_usd ''uniswap'' = 30121 / 2 \<and>
     breakdown df Tx_count 1 = [(''uniswap'', 12940)] \<and>
     total df Tx_count ''uniswap'' = 12940"
proof -
  from counter_rng_week obtain df where
    df: "load_mock counter_rng 100 7 [''uniswap'', ''aave''] = Inr df" "length df = 14"
      "groupby_sum df Amount_usd = [(''aave'', 1534217 / 100), (''uniswap'', 30121 / 2)]"
      "breakdown df Amount_usd 1 = [(''aave'', 1534217 / 100)]"
      "groupby_sum df Tx_count = [(''aave'', 12717), (''uniswap'', 12940)]"
      "breakdown df Tx_count 1 = [(''uniswap'', 12940)]"
    by (auto split: sum.splits)
  from df(2) have ne: "df \<noteq> []" by auto
  from breakdown_top [of df Amount_usd 1] df(3)
  have a: "(''aave'', 1534217 / 100) \<in> (\<lambda>p. (p, total df Amount_usd p)) ` project ` set df"
    "(''uniswap'', 30121 / 2) \<in> (\<lambda>p. (p, total df Amount_usd p)) ` project ` set df"
    by auto
  from breakdown_top [of df Tx_count 1] ne df(6)
  have t: "total df Tx_count ''uniswap'' = 12940" by auto
  from a have "total df Amount_usd ''aave'' = 1534217 / 100"
    "total df Amount_usd ''uniswap'' = 30121 / 2" by auto
  with df ne t show ?thesis by blast
qed

end
